theory Spec2Isabelle
  imports Complex_Main "HOL-Library.Word"
begin

section \<open>Values of the host language\<close>

text \<open>
  A JavaScript string is a sequence of UTF-16 code units. String constants of the source
  are written as Isabelle strings and injected with \<open>lit\<close>.
\<close>

type_synonym jsstring = "16 word list"

definition lit :: "string \<Rightarrow> jsstring" where
  "lit s = map of_char s"

text \<open>
  What \<open>JSON.parse\<close> can return. A number is a finite double, hence a rational; the
  analysis never computes with it. An object is the list of its own properties, each key
  once.
\<close>

datatype json =
    JNull
  | JBool bool
  | JNum rat
  | JStr jsstring
  | JArr "json list"
  | JObj "(jsstring \<times> json) list"

text \<open>An exception value (the reason of a rejected promise), with its message.\<close>

datatype thrown = Thrown jsstring

text \<open>The browser's \<open>File\<close>: a name and the bytes.\<close>

datatype File = File jsstring "8 word list"

text \<open>
  \<open>String.prototype.trim\<close> removes leading and trailing WhiteSpace and LineTerminator
  code points (TAB, LF, VT, FF, CR, SP, NBSP, the Unicode space separators, LS, PS, BOM).
  All of them are single code units.
\<close>

definition is_space :: "16 word \<Rightarrow> bool" where
  "is_space c \<longleftrightarrow>
     c \<in> {0x9, 0xA, 0xB, 0xC, 0xD, 0x20, 0xA0, 0x1680, 0x2028, 0x2029, 0x202F, 0x205F,
          0x3000, 0xFEFF}
     \<or> (0x2000 \<le> c \<and> c \<le> 0x200A)"

definition trim :: "jsstring \<Rightarrow> jsstring" where
  "trim s = rev (dropWhile is_space (rev (dropWhile is_space s)))"

section \<open>The declared shape of a result (App.tsx, interface AnalysisResult)\<close>

fun is_string :: "json \<Rightarrow> bool" where
  "is_string (JStr s) = True"
| "is_string v = False"

fun is_number :: "json \<Rightarrow> bool" where
  "is_number (JNum n) = True"
| "is_number v = False"

fun is_string_array :: "json \<Rightarrow> bool" where
  "is_string_array (JArr xs) = list_all is_string xs"
| "is_string_array v = False"

text \<open>Property read \<open>v.k\<close>; \<open>None\<close> is \<open>undefined\<close>.\<close>

fun property :: "json \<Rightarrow> string \<Rightarrow> json option" where
  "property (JObj kvs) k = map_of kvs (lit k)"
| "property v k = None"

definition has :: "(json \<Rightarrow> bool) \<Rightarrow> json \<Rightarrow> string \<Rightarrow> bool" where
  "has ty v k = (case property v k of None \<Rightarrow> False | Some x \<Rightarrow> ty x)"

definition AnalysisResult :: "json \<Rightarrow> bool" where
  "AnalysisResult v \<longleftrightarrow>
     has is_string v ''overall_summary'' \<and>
     has is_number v ''resume_score'' \<and>
     has is_string v ''ats_compatibility'' \<and>
     has is_string v ''resume_length'' \<and>
     has is_number v ''readability_score'' \<and>
     has (\<lambda>s. has is_string_array s ''matched'' \<and>
              has is_string_array s ''missing'' \<and>
              has is_number s ''match_percentage'') v ''skills_match'' \<and>
     has (\<lambda>s. has is_string_array s ''matched'' \<and>
              has is_string_array s ''missing'') v ''soft_skills_match'' \<and>
     has (\<lambda>s. has is_string_array s ''strong'' \<and>
              has is_string_array s ''moderate'' \<and>
              has is_string_array s ''weak_or_missing'') v ''technical_proficiency'' \<and>
     has (\<lambda>s. has is_string_array s ''present_keywords'' \<and>
              has is_string_array s ''missing_keywords'') v ''keywords_analysis'' \<and>
     has (\<lambda>s. has is_string_array s ''met_requirements'' \<and>
              has is_string_array s ''missing_requirements'') v ''job_requirements_coverage'' \<and>
     has (\<lambda>s. has is_string_array s ''aligned_experience'' \<and>
              has is_string_array s ''missing_experience_areas'') v ''experience_alignment'' \<and>
     has is_string v ''tone_of_language'' \<and>
     has is_string_array v ''formatting_issues'' \<and>
     has is_string_array v ''grammar_issues'' \<and>
     has is_string_array v ''recommendations''"

text \<open>
  The reads the report makes of the stored value: \<open>analysisResult.resume_score\<close>,
  \<open>analysisResult.skills_match.match_percentage\<close> and so on.
\<close>

definition resume_score :: "json \<Rightarrow> json option" where
  "resume_score r = property r ''resume_score''"

definition readability_score :: "json \<Rightarrow> json option" where
  "readability_score r = property r ''readability_score''"

definition match_percentage :: "json \<Rightarrow> json option" where
  "match_percentage r =
     (case property r ''skills_match'' of None \<Rightarrow> None | Some s \<Rightarrow> property s ''match_percentage'')"

definition ats_compatibility :: "json \<Rightarrow> json option" where
  "ats_compatibility r = property r ''ats_compatibility''"

definition resume_length :: "json \<Rightarrow> json option" where
  "resume_length r = property r ''resume_length''"

definition tone_of_language :: "json \<Rightarrow> json option" where
  "tone_of_language r = property r ''tone_of_language''"

section \<open>Component state and effects (App.tsx, App)\<close>

text \<open>
  The four \<open>useState\<close> cells. The interface \<open>AnalysisResult\<close> is erased at run time:
  \<open>analysisResult\<close> holds whatever value was stored, \<open>null\<close> at first.
\<close>

record app_state =
  resumeFile :: "File option"
  jobDescription :: jsstring
  analysisResult :: json
  loading :: bool

definition initial :: app_state where
  "initial = \<lparr>resumeFile = None, jobDescription = [], analysisResult = JNull, loading = False\<rparr>"

text \<open>The argument of \<open>groq.chat.completions.create\<close>: one message, model, format.\<close>

record chat_request =
  role :: jsstring
  content :: jsstring
  model :: jsstring
  response_format :: jsstring

text \<open>
  What a run does to the outside: \<open>alert\<close>, \<open>toast.error\<close>, \<open>toast.success\<close> (their
  position option left out), \<open>console.error\<close>, the call of the PDF library and the
  request to the completion service.
\<close>

datatype effect =
    Alert jsstring
  | ToastError jsstring
  | ToastSuccess jsstring
  | ConsoleError jsstring thrown
  | PdfToText File
  | ChatCompletion chat_request

text \<open>
  The collaborators outside the repository, by what they answer: the PDF library and the
  completion service settle with a value or a rejection; \<open>create\<close> stands for the request
  together with the read of \<open>choices[0].message.content\<close>, and answers the text that
  \<open>JSON.parse\<close> receives. \<open>JSON.parse\<close> returns the decoded value or throws.
\<close>

record env =
  pdfToText :: "File \<Rightarrow> thrown + jsstring"
  create :: "chat_request \<Rightarrow> thrown + jsstring"
  JSON_parse :: "jsstring \<Rightarrow> thrown + json"

section \<open>Text extraction (App.tsx, extractTextFromPDF)\<close>

definition extractTextFromPDF :: "(thrown + jsstring) \<Rightarrow> jsstring \<times> effect list" where
  "extractTextFromPDF settled =
     (case settled of
        Inr text \<Rightarrow> (text, [])
      | Inl error \<Rightarrow> ([], [ConsoleError (lit ''Failed to extract text from PDF:'') error]))"

section \<open>The prompt (App.tsx, analyzeResume, the template literal)\<close>

definition prompt_head :: jsstring where
  "prompt_head = lit (
     ''\<newline>'' @
     ''You are an AI Resume Analyzer designed to help job seekers improve '' @
     ''their resumes. Analyze the following resume against the provided job '' @
     ''description and return a response in strict JSON format as per the '' @
     ''schema below. Give detailed recommendations and insights based on the '' @
     ''analysis. Analyze the resume STRICTLY based on the job description.\<newline>'' @
     ''\<newline>'' @
     ''Respond ONLY with the JSON object.\<newline>'' @
     ''\<newline>'' @
     ''Schema:\<newline>'' @
     ''{\<newline>'' @
     ''  \"overall_summary\": string,\<newline>'' @
     ''  \"resume_score\": number (0 to 100),\<newline>'' @
     ''  \"ats_compatibility\": \"High\" | \"Medium\" | \"Low\",\<newline>'' @
     ''  \"resume_length\": \"Too Short\" | \"Optimal\" | \"Too Long\",\<newline>'' @
     ''  \"readability_score\": number (0 to 100),\<newline>'' @
     ''  \"skills_match\": {\<newline>'' @
     ''    \"matched\": string[],\<newline>'' @
     ''    \"missing\": string[],\<newline>'' @
     ''    \"match_percentage\": number (0 to 100)\<newline>'' @
     ''  },\<newline>'' @
     ''  \"soft_skills_match\": {\<newline>'' @
     ''    \"matched\": string[],\<newline>'' @
     ''    \"missing\": string[]\<newline>'' @
     ''  },\<newline>'' @
     ''  \"technical_proficiency\": {\<newline>'' @
     ''    \"strong\": string[],\<newline>'' @
     ''    \"moderate\": string[],\<newline>'' @
     ''    \"weak_or_missing\": string[]\<newline>'' @
     ''  },\<newline>'' @
     ''  \"keywords_analysis\": {\<newline>'' @
     ''    \"present_keywords\": string[],\<newline>'' @
     ''    \"missing_keywords\": string[]\<newline>'' @
     ''  },\<newline>'' @
     ''  \"job_requirements_coverage\": {\<newline>'' @
     ''    \"met_requirements\": string[],\<newline>'' @
     ''    \"missing_requirements\": string[]\<newline>'' @
     ''  },\<newline>'' @
     ''  \"experience_alignment\": {\<newline>'' @
     ''    \"aligned_experience\": string[],\<newline>'' @
     ''    \"missing_experience_areas\": string[]\<newline>'' @
     ''  },\<newline>'' @
     ''  \"tone_of_language\": \"Professional\" | \"Casual\" | \"Neutral\" | '' @
     ''\"Aggressive\",\<newline>'' @
     ''  \"formatting_issues\": string[],\<newline>'' @
     ''  \"grammar_issues\": string[],\<newline>'' @
     ''  \"recommendations\": string[]\<newline>'' @
     ''}\<newline>'' @
     ''\<newline>'' @
     ''Resume:\<newline>'')"

definition prompt_mid :: jsstring where
  "prompt_mid = lit (
     ''\<newline>'' @
     ''\<newline>'' @
     ''Job Description:\<newline>'')"

definition prompt_tail :: jsstring where
  "prompt_tail = lit (
     ''\<newline>'')"

definition prompt :: "jsstring \<Rightarrow> jsstring \<Rightarrow> jsstring" where
  "prompt resumeText jd = prompt_head @ resumeText @ prompt_mid @ jd @ prompt_tail"

definition request :: "jsstring \<Rightarrow> chat_request" where
  "request p = \<lparr>role = lit ''user'', content = p, model = lit ''llama-3.3-70b-versatile'',
     response_format = lit ''json_object''\<rparr>"

section \<open>The analysis run (App.tsx, analyzeResume)\<close>

text \<open>
  \<open>analyzeResume\<close> is an async function with two awaits, so it runs in three
  uninterrupted segments. Each segment takes the component state it finds and returns
  the state it leaves, the effects it performed and what it waits for next.
\<close>

text \<open>
  Segment 1, up to \<open>await extractTextFromPDF(resumeFile)\<close>. The closure keeps the file and
  the job description of the render it was created in.
\<close>

definition analyzeResume_start ::
  "app_state \<Rightarrow> app_state \<times> effect list \<times> (File \<times> jsstring) option" where
  "analyzeResume_start st =
     (case resumeFile st of
        None \<Rightarrow>
          (st, [Alert (lit ''Please upload a resume and provide a job description'')], None)
      | Some f \<Rightarrow>
          if jobDescription st = [] then
            (st, [Alert (lit ''Please upload a resume and provide a job description'')], None)
          else (st\<lparr>loading := True\<rparr>, [PdfToText f], Some (f, jobDescription st)))"

text \<open>
  Segment 2, from the extracted text to \<open>await groq.chat.completions.create(...)\<close>.
  The early return sets \<open>loading\<close> and the \<open>finally\<close> block sets it again.
\<close>

definition analyzeResume_extracted ::
  "jsstring \<Rightarrow> jsstring \<Rightarrow> app_state \<Rightarrow> app_state \<times> effect list \<times> chat_request option" where
  "analyzeResume_extracted jd resumeText st =
     (if trim resumeText = [] then
        (st\<lparr>loading := False\<rparr>\<lparr>loading := False\<rparr>,
         [ToastError (lit ''Failed to Scan Resume'')], None)
      else
        (st, [ChatCompletion (request (prompt resumeText jd))],
         Some (request (prompt resumeText jd))))"

text \<open>Segment 3, from the settled request to the end: \<open>try\<close>, \<open>catch\<close>, \<open>finally\<close>.\<close>

definition failed :: "thrown \<Rightarrow> app_state \<Rightarrow> app_state \<times> effect list" where
  "failed error st =
     (st\<lparr>loading := False\<rparr>,
      [ConsoleError (lit ''Failed to analyze resume:'') error,
       Alert (lit ''Failed to analyze resume. Please try again.'')])"

definition analyzeResume_completed ::
  "(jsstring \<Rightarrow> thrown + json) \<Rightarrow> (thrown + jsstring) \<Rightarrow> app_state \<Rightarrow> app_state \<times> effect list" where
  "analyzeResume_completed parse settled st =
     (case settled of
        Inl error \<Rightarrow> failed error st
      | Inr text \<Rightarrow>
          (case parse text of
             Inl error \<Rightarrow> failed error st
           | Inr result \<Rightarrow>
               (st\<lparr>analysisResult := result, loading := False\<rparr>,
                [ToastSuccess (lit ''Analysis complete!'')])))"

text \<open>One run with nothing else happening in between.\<close>

definition analyzeResume :: "env \<Rightarrow> app_state \<Rightarrow> app_state \<times> effect list" where
  "analyzeResume e st =
     (case analyzeResume_start st of
        (st1, fx1, None) \<Rightarrow> (st1, fx1)
      | (st1, fx1, Some (f, jd)) \<Rightarrow>
          (case extractTextFromPDF (pdfToText e f) of
             (resumeText, fx2) \<Rightarrow>
               (case analyzeResume_extracted jd resumeText st1 of
                  (st2, fx3, None) \<Rightarrow> (st2, fx1 @ fx2 @ fx3)
                | (st2, fx3, Some req) \<Rightarrow>
                    (case analyzeResume_completed (JSON_parse e) (create e req) st2 of
                       (st3, fx4) \<Rightarrow> (st3, fx1 @ fx2 @ fx3 @ fx4)))))"

text \<open>The requests a run sent to the completion service.\<close>

fun requests :: "effect list \<Rightarrow> chat_request list" where
  "requests [] = []"
| "requests (ChatCompletion r # fx) = r # requests fx"
| "requests (x # fx) = requests fx"

fun extractions :: "effect list \<Rightarrow> File list" where
  "extractions [] = []"
| "extractions (PdfToText f # fx) = f # extractions fx"
| "extractions (x # fx) = extractions fx"

section \<open>The page around the run (App.tsx, App)\<close>

text \<open>
  The Analyze button calls \<open>analyzeResume\<close> and is disabled while \<open>loading\<close> is set or an
  input is missing; a disabled button delivers no click.
\<close>

definition disabled :: "app_state \<Rightarrow> bool" where
  "disabled st \<longleftrightarrow> loading st \<or> resumeFile st = None \<or> jobDescription st = []"

definition handleResumeUpload :: "File option \<Rightarrow> app_state \<Rightarrow> app_state" where
  "handleResumeUpload chosen st =
     (case chosen of None \<Rightarrow> st | Some f \<Rightarrow> st\<lparr>resumeFile := Some f\<rparr>)"

text \<open>
  A started run that waits for a promise: for the extracted text (keeping the job
  description of its closure) or for the completion.
\<close>

datatype pending = AwaitExtract File jsstring | AwaitCompletion chat_request

definition resume ::
  "(jsstring \<Rightarrow> thrown + json) \<Rightarrow> pending \<Rightarrow> (thrown + jsstring) \<Rightarrow> app_state \<Rightarrow>
   app_state \<times> effect list \<times> pending option" where
  "resume parse p settled st =
     (case p of
        AwaitExtract f jd \<Rightarrow>
          (case extractTextFromPDF settled of
             (resumeText, fx2) \<Rightarrow>
               (case analyzeResume_extracted jd resumeText st of
                  (st2, fx3, w) \<Rightarrow> (st2, fx2 @ fx3, map_option AwaitCompletion w)))
      | AwaitCompletion req \<Rightarrow>
          (case analyzeResume_completed parse settled st of
             (st3, fx4) \<Rightarrow> (st3, fx4, None)))"

text \<open>
  The page as an event loop: the state, the runs in flight and the effects so far.
  State updates of one event are rendered before the next event is handled. Drawing the
  report is not part of the model: where the page throws while it draws a stored value
  that lacks a field the report reads, it is gone and takes no further event, so what
  the page does is a beginning of what the model does. The model serves statements that
  hold of every beginning (what never happens), not statements that something can happen
  next.
\<close>

record page =
  app :: app_state
  inflight :: "pending list"
  effects :: "effect list"

datatype event =
    Click
  | Upload "File option"
  | Edit jsstring
  | Settled nat "thrown + jsstring"

fun step :: "(jsstring \<Rightarrow> thrown + json) \<Rightarrow> page \<Rightarrow> event \<Rightarrow> page" where
  "step parse s Click =
     (if disabled (app s) then s
      else
        (case analyzeResume_start (app s) of
           (st1, fx1, w) \<Rightarrow>
             \<lparr>app = st1,
              inflight = inflight s @ (case w of None \<Rightarrow> [] | Some (f, jd) \<Rightarrow> [AwaitExtract f jd]),
              effects = effects s @ fx1\<rparr>))"
| "step parse s (Upload chosen) = s\<lparr>app := handleResumeUpload chosen (app s)\<rparr>"
| "step parse s (Edit text) = s\<lparr>app := (app s)\<lparr>jobDescription := text\<rparr>\<rparr>"
| "step parse s (Settled i settled) =
     (if i < length (inflight s) then
        (case resume parse (inflight s ! i) settled (app s) of
           (st', fx, w) \<Rightarrow>
             \<lparr>app = st',
              inflight =
                (case w of
                   None \<Rightarrow> take i (inflight s) @ drop (Suc i) (inflight s)
                 | Some p \<Rightarrow> (inflight s)[i := p]),
              effects = effects s @ fx\<rparr>)
      else s)"

definition opened :: page where
  "opened = \<lparr>app = initial, inflight = [], effects = []\<rparr>"

section \<open>Presentation helper (App.tsx, getATSColor)\<close>

text \<open>\<open>String.prototype.toLowerCase\<close> is the host's and is a parameter.\<close>

definition getATSColor :: "(jsstring \<Rightarrow> jsstring) \<Rightarrow> jsstring \<Rightarrow> jsstring" where
  "getATSColor toLowerCase compatibility =
     (let c = toLowerCase compatibility in
      if c = lit ''high'' then lit ''text-green-600''
      else if c = lit ''medium'' then lit ''text-yellow-600''
      else if c = lit ''low'' then lit ''text-red-600''
      else lit ''text-gray-600'')"

text \<open>What \<open>toLowerCase\<close> does on ASCII text.\<close>

definition ascii_lower :: "jsstring \<Rightarrow> jsstring" where
  "ascii_lower s = map (\<lambda>c. if 0x41 \<le> c \<and> c \<le> 0x5A then c + 0x20 else c) s"

section \<open>Example inputs\<close>

definition cv :: File where
  "cv = File (lit ''cv.pdf'') [0x25, 0x50, 0x44, 0x46]"

definition ready :: app_state where
  "ready = \<lparr>resumeFile = Some cv, jobDescription = lit ''Go, AWS'',
     analysisResult = JNull, loading = False\<rparr>"

text \<open>
  A stand-in for \<open>JSON.parse\<close> in the examples: a listed text decodes to the value listed
  with it, and any other text is taken not to decode (the examples use it on the listed
  texts and on \<open>{not json\<close>).
\<close>

definition decode :: "(string \<times> json) list \<Rightarrow> jsstring \<Rightarrow> thrown + json" where
  "decode table text =
     (case map_of (map (\<lambda>(k, v). (lit k, v)) table) text of
        None \<Rightarrow> Inl (Thrown (lit ''SyntaxError''))
      | Some v \<Rightarrow> Inr v)"

text \<open>Collaborators for the examples: the PDF library answers \<open>x\<close>, the service \<open>c\<close>.\<close>

definition answering :: "(thrown + jsstring) \<Rightarrow> (thrown + jsstring) \<Rightarrow> (string \<times> json) list \<Rightarrow> env" where
  "answering x c table = \<lparr>pdfToText = (\<lambda>f. x), create = (\<lambda>r. c), JSON_parse = decode table\<rparr>"

text \<open>
  A reply with every declared field, for a given \<open>resume_score\<close> and
  \<open>ats_compatibility\<close>, and the text of two such replies.
\<close>

definition reply :: "rat \<Rightarrow> string \<Rightarrow> json" where
  "reply score ats =
     JObj
       [(lit ''overall_summary'', JStr (lit ''Solid backend profile.'')),
        (lit ''resume_score'', JNum score),
        (lit ''ats_compatibility'', JStr (lit ats)),
        (lit ''resume_length'', JStr (lit ''Optimal'')),
        (lit ''readability_score'', JNum 70),
        (lit ''skills_match'', JObj
          [(lit ''matched'', JArr [JStr (lit ''Go''), JStr (lit ''AWS'')]),
           (lit ''missing'', JArr [JStr (lit ''Kubernetes'')]),
           (lit ''match_percentage'', JNum 66)]),
        (lit ''soft_skills_match'', JObj
          [(lit ''matched'', JArr []), (lit ''missing'', JArr [])]),
        (lit ''technical_proficiency'', JObj
          [(lit ''strong'', JArr [JStr (lit ''Go'')]),
           (lit ''moderate'', JArr []),
           (lit ''weak_or_missing'', JArr [])]),
        (lit ''keywords_analysis'', JObj
          [(lit ''present_keywords'', JArr []), (lit ''missing_keywords'', JArr [])]),
        (lit ''job_requirements_coverage'', JObj
          [(lit ''met_requirements'', JArr []), (lit ''missing_requirements'', JArr [])]),
        (lit ''experience_alignment'', JObj
          [(lit ''aligned_experience'', JArr []), (lit ''missing_experience_areas'', JArr [])]),
        (lit ''tone_of_language'', JStr (lit ''Neutral'')),
        (lit ''formatting_issues'', JArr []),
        (lit ''grammar_issues'', JArr []),
        (lit ''recommendations'', JArr [JStr (lit ''Mention Kubernetes.'')])]"

definition reply_150_text :: string where
  "reply_150_text =
     ''{\"overall_summary\":\"Solid backend profile.\",\"resume_score\":150,\"at'' @
     ''s_compatibility\":\"High\",\"resume_length\":\"Optimal\",\"readability_sco'' @
     ''re\":70,\"skills_match\":{\"matched\":[\"Go\",\"AWS\"],\"missing\":[\"Kubernet'' @
     ''es\"],\"match_percentage\":66},\"soft_skills_match\":{\"matched\":[],\"mis'' @
     ''sing\":[]},\"technical_proficiency\":{\"strong\":[\"Go\"],\"moderate\":[],\"'' @
     ''weak_or_missing\":[]},\"keywords_analysis\":{\"present_keywords\":[],\"m'' @
     ''issing_keywords\":[]},\"job_requirements_coverage\":{\"met_requirement'' @
     ''s\":[],\"missing_requirements\":[]},\"experience_alignment\":{\"aligned_'' @
     ''experience\":[],\"missing_experience_areas\":[]},\"tone_of_language\":\"'' @
     ''Neutral\",\"formatting_issues\":[],\"grammar_issues\":[],\"recommendatio'' @
     ''ns\":[\"Mention Kubernetes.\"]}''"

definition reply_banana_text :: string where
  "reply_banana_text =
     ''{\"overall_summary\":\"Solid backend profile.\",\"resume_score\":82,\"ats'' @
     ''_compatibility\":\"Banana\",\"resume_length\":\"Optimal\",\"readability_sc'' @
     ''ore\":70,\"skills_match\":{\"matched\":[\"Go\",\"AWS\"],\"missing\":[\"Kuberne'' @
     ''tes\"],\"match_percentage\":66},\"soft_skills_match\":{\"matched\":[],\"mi'' @
     ''ssing\":[]},\"technical_proficiency\":{\"strong\":[\"Go\"],\"moderate\":[],'' @
     ''\"weak_or_missing\":[]},\"keywords_analysis\":{\"present_keywords\":[],\"'' @
     ''missing_keywords\":[]},\"job_requirements_coverage\":{\"met_requiremen'' @
     ''ts\":[],\"missing_requirements\":[]},\"experience_alignment\":{\"aligned'' @
     ''_experience\":[],\"missing_experience_areas\":[]},\"tone_of_language\":'' @
     ''\"Neutral\",\"formatting_issues\":[],\"grammar_issues\":[],\"recommendati'' @
     ''ons\":[\"Mention Kubernetes.\"]}''"

text \<open>The replies the examples decode.\<close>

definition replies :: "(string \<times> json) list" where
  "replies =
     [(''{}'', JObj []),
      (''{\"resume_score\":150}'', JObj [(lit ''resume_score'', JNum 150)]),
      (reply_150_text, reply 150 ''High''),
      (reply_banana_text, reply 82 ''Banana'')]"

section \<open>Facts shared by the proofs\<close>

lemma trim_empty_iff: "trim s = [] \<longleftrightarrow> (\<forall>c\<in>set s. is_space c)"
proof -
  let ?d = "dropWhile is_space s"
  have "dropWhile is_space (rev ?d) = [] \<longleftrightarrow> ?d = []"
  proof
    assume a: "dropWhile is_space (rev ?d) = []"
    show "?d = []"
    proof (rule ccontr)
      assume n: "?d \<noteq> []"
      then have "\<not> is_space (hd ?d)" by (rule hd_dropWhile)
      moreover have "hd ?d \<in> set (rev ?d)" using n by simp
      moreover have "\<forall>x\<in>set (rev ?d). is_space x"
        using a unfolding dropWhile_eq_Nil_conv .
      ultimately show False by blast
    qed
  next
    assume e: "?d = []"
    show "dropWhile is_space (rev ?d) = []" unfolding e by simp
  qed
  moreover have "?d = [] \<longleftrightarrow> (\<forall>c\<in>set s. is_space c)"
    by (rule dropWhile_eq_Nil_conv)
  ultimately show ?thesis by (simp add: trim_def)
qed

lemma trim_Nil: "trim [] = []"
  by (simp add: trim_def)

lemma requests_append: "requests (xs @ ys) = requests xs @ requests ys"
  by (induction xs rule: requests.induct) simp_all

lemma extractions_append: "extractions (xs @ ys) = extractions xs @ extractions ys"
  by (induction xs rule: extractions.induct) simp_all

lemma extract_quiet:
  "requests (snd (extractTextFromPDF x)) = [] \<and> extractions (snd (extractTextFromPDF x)) = []"
  by (cases x) (simp_all add: extractTextFromPDF_def)

text \<open>The five ways through a run.\<close>

lemma run_missing:
  "resumeFile st = None \<or> jobDescription st = [] \<Longrightarrow>
   analyzeResume e st =
     (st, [Alert (lit ''Please upload a resume and provide a job description'')])"
  by (auto simp: analyzeResume_def analyzeResume_start_def split: option.splits)

lemma run_blank:
  assumes "resumeFile st = Some f" and "jobDescription st \<noteq> []"
    and "extractTextFromPDF (pdfToText e f) = (resumeText, fx)" and "trim resumeText = []"
  shows "analyzeResume e st =
     (st\<lparr>loading := False\<rparr>, [PdfToText f] @ fx @ [ToastError (lit ''Failed to Scan Resume'')])"
  using assms
  by (simp add: analyzeResume_def analyzeResume_start_def analyzeResume_extracted_def)

lemma run_rejected:
  assumes "resumeFile st = Some f" and "jobDescription st \<noteq> []"
    and "pdfToText e f = Inr resumeText" and "trim resumeText \<noteq> []"
    and "create e (request (prompt resumeText (jobDescription st))) = Inl error"
  shows "analyzeResume e st =
     (st\<lparr>loading := False\<rparr>,
      [PdfToText f, ChatCompletion (request (prompt resumeText (jobDescription st))),
       ConsoleError (lit ''Failed to analyze resume:'') error,
       Alert (lit ''Failed to analyze resume. Please try again.'')])"
  using assms
  by (simp add: analyzeResume_def analyzeResume_start_def analyzeResume_extracted_def
      extractTextFromPDF_def analyzeResume_completed_def failed_def)

lemma run_undecodable:
  assumes "resumeFile st = Some f" and "jobDescription st \<noteq> []"
    and "pdfToText e f = Inr resumeText" and "trim resumeText \<noteq> []"
    and "create e (request (prompt resumeText (jobDescription st))) = Inr raw"
    and "JSON_parse e raw = Inl error"
  shows "analyzeResume e st =
     (st\<lparr>loading := False\<rparr>,
      [PdfToText f, ChatCompletion (request (prompt resumeText (jobDescription st))),
       ConsoleError (lit ''Failed to analyze resume:'') error,
       Alert (lit ''Failed to analyze resume. Please try again.'')])"
  using assms
  by (simp add: analyzeResume_def analyzeResume_start_def analyzeResume_extracted_def
      extractTextFromPDF_def analyzeResume_completed_def failed_def)

lemma run_decoded:
  assumes "resumeFile st = Some f" and "jobDescription st \<noteq> []"
    and "pdfToText e f = Inr resumeText" and "trim resumeText \<noteq> []"
    and "create e (request (prompt resumeText (jobDescription st))) = Inr raw"
    and "JSON_parse e raw = Inr v"
  shows "analyzeResume e st =
     (st\<lparr>analysisResult := v, loading := False\<rparr>,
      [PdfToText f, ChatCompletion (request (prompt resumeText (jobDescription st))),
       ToastSuccess (lit ''Analysis complete!'')])"
  using assms
  by (simp add: analyzeResume_def analyzeResume_start_def analyzeResume_extracted_def
      extractTextFromPDF_def analyzeResume_completed_def)

text \<open>The example state and the example answers.\<close>

lemma ready_file: "resumeFile ready = Some cv"
  by (simp add: ready_def)

lemma ready_description: "jobDescription ready \<noteq> []"
  by (simp add: ready_def lit_def)

lemma go_developer_not_blank: "trim (lit ''Go developer'') \<noteq> []"
  by (simp add: trim_empty_iff lit_def is_space_def)

lemma answering_simps:
  "pdfToText (answering x c table) f = x"
  "create (answering x c table) r = c"
  "JSON_parse (answering x c table) = decode table"
  by (simp_all add: answering_def)

lemma go_aws: "jobDescription ready = lit ''Go, AWS''"
  by (simp add: ready_def)

lemma reply_150_decoded:
  "JSON_parse (answering x c replies) (lit reply_150_text) = Inr (reply 150 ''High'')"
  by (simp add: answering_simps decode_def replies_def lit_def reply_150_text_def)

lemma reply_banana_decoded:
  "JSON_parse (answering x c replies) (lit reply_banana_text) = Inr (reply 82 ''Banana'')"
  by (simp add: answering_simps decode_def replies_def lit_def reply_150_text_def
      reply_banana_text_def)

lemma colours_distinct:
  "lit ''text-green-600'' \<noteq> lit ''text-gray-600''"
  "lit ''text-yellow-600'' \<noteq> lit ''text-gray-600''"
  "lit ''text-red-600'' \<noteq> lit ''text-gray-600''"
  by (simp_all add: lit_def)

lemma run_requests:
  assumes "resumeFile st = Some f" and "jobDescription st \<noteq> []"
    and "pdfToText e f = Inr resumeText" and "trim resumeText \<noteq> []"
  shows "requests (snd (analyzeResume e st)) = [request (prompt resumeText (jobDescription st))]"
proof (cases "create e (request (prompt resumeText (jobDescription st)))")
  case (Inl error)
  show ?thesis by (simp add: run_rejected [OF assms Inl])
next
  case (Inr raw)
  show ?thesis
  proof (cases "JSON_parse e raw")
    case (Inl error)
    show ?thesis by (simp add: run_undecodable [OF assms Inr Inl])
  next
    case v: (Inr v)
    show ?thesis by (simp add: run_decoded [OF assms Inr v])
  qed
qed

lemma prompt_frame_length: "length prompt_head + length prompt_mid + length prompt_tail = 1432"
  by (simp add: prompt_head_def prompt_mid_def prompt_tail_def lit_def)

lemma run_result:
  "analysisResult (fst (analyzeResume e st)) = analysisResult st \<or>
   last (snd (analyzeResume e st)) = ToastSuccess (lit ''Analysis complete!'')"
  by (auto simp: analyzeResume_def analyzeResume_start_def analyzeResume_extracted_def
      analyzeResume_completed_def failed_def extractTextFromPDF_def
      split: option.splits sum.splits)

lemma run_inputs:
  "resumeFile (fst (analyzeResume e st)) = resumeFile st \<and>
   jobDescription (fst (analyzeResume e st)) = jobDescription st"
  by (auto simp: analyzeResume_def analyzeResume_start_def analyzeResume_extracted_def
      analyzeResume_completed_def failed_def extractTextFromPDF_def
      split: option.splits sum.splits)


text \<open>On the page, \<open>loading\<close> is set exactly while a run is in flight, and there is at most one.\<close>

lemma step_keeps_one_run:
  assumes "length (inflight s) \<le> 1" and "loading (app s) \<longleftrightarrow> inflight s \<noteq> []"
  shows "length (inflight (step parse s ev)) \<le> 1 \<and>
         (loading (app (step parse s ev)) \<longleftrightarrow> inflight (step parse s ev) \<noteq> [])"
proof (cases ev)
  case Click
  show ?thesis
  proof (cases "disabled (app s)")
    case True
    with Click assms show ?thesis by simp
  next
    case False
    then have "inflight s = []" using assms(2) by (auto simp: disabled_def)
    with False Click show ?thesis
      by (auto simp: disabled_def analyzeResume_start_def split: option.splits)
  qed
next
  case (Upload chosen)
  with assms show ?thesis by (simp add: handleResumeUpload_def split: option.splits)
next
  case (Edit jd)
  with assms show ?thesis by simp
next
  case (Settled i settled)
  show ?thesis
  proof (cases "i < length (inflight s)")
    case False
    with Settled assms show ?thesis by simp
  next
    case True
    then obtain p where p: "inflight s = [p]" and i: "i = 0"
      using assms(1) by (cases "inflight s") auto
    have l: "loading (app s)" using assms(2) p by simp
    show ?thesis
    proof (cases p)
      case (AwaitExtract f jd)
      with Settled p i l show ?thesis
        by (cases settled)
          (auto simp: resume_def extractTextFromPDF_def analyzeResume_extracted_def)
    next
      case (AwaitCompletion req)
      with Settled p i l show ?thesis
        by (auto simp: resume_def analyzeResume_completed_def failed_def split: sum.splits)
    qed
  qed
qed

lemma page_keeps_one_run:
  "length (inflight (foldl (step parse) opened evs)) \<le> 1 \<and>
   (loading (app (foldl (step parse) opened evs)) \<longleftrightarrow>
      inflight (foldl (step parse) opened evs) \<noteq> [])"
proof (induction evs rule: rev_induct)
  case Nil
  show ?case by (simp add: opened_def initial_def)
next
  case (snoc ev evs)
  then show ?case using step_keeps_one_run [of "foldl (step parse) opened evs" parse ev] by simp
qed

text \<open>
  A run started by a click on an idle page, with its two promises settling in turn and
  nothing in between, is \<open>analyzeResume\<close>.
\<close>

lemma page_run_is_analyzeResume:
  assumes "resumeFile st = Some f" and "jobDescription st \<noteq> []" and "\<not> loading st"
  shows "(let s1 = step (JSON_parse e) \<lparr>app = st, inflight = [], effects = []\<rparr> Click;
              s2 = step (JSON_parse e) s1 (Settled 0 (pdfToText e f));
              s3 = step (JSON_parse e) s2
                     (Settled 0 (create e (request (prompt
                        (fst (extractTextFromPDF (pdfToText e f))) (jobDescription st)))))
          in (app s3, effects s3) = analyzeResume e st \<and> inflight s3 = [])"
  using assms
  by (auto simp: Let_def disabled_def analyzeResume_def analyzeResume_start_def resume_def
      analyzeResume_extracted_def analyzeResume_completed_def failed_def extractTextFromPDF_def
      split: sum.splits)

section \<open>Decoding the reply\<close>

text \<open>
  C1, as the code has it. Once the service has answered with a text, the run either stores
  the value \<open>JSON.parse\<close> decodes from it, whole and exactly as decoded, or, when the text
  does not decode, reports the general failure and leaves the stored result alone.
  Nothing is checked against the declared fields, and the decode error is reported
  like a service error.
\<close>

theorem reply_is_stored_as_decoded:
  assumes "resumeFile st = Some f" and "jobDescription st \<noteq> []"
    and "pdfToText e f = Inr resumeText" and "trim resumeText \<noteq> []"
    and "create e (request (prompt resumeText (jobDescription st))) = Inr raw"
  shows "(\<forall>error. JSON_parse e raw = Inl error \<longrightarrow>
            analyzeResume e st =
              (st\<lparr>loading := False\<rparr>,
               [PdfToText f, ChatCompletion (request (prompt resumeText (jobDescription st))),
                ConsoleError (lit ''Failed to analyze resume:'') error,
                Alert (lit ''Failed to analyze resume. Please try again.'')])) \<and>
         (\<forall>v. JSON_parse e raw = Inr v \<longrightarrow>
            analyzeResume e st =
              (st\<lparr>analysisResult := v, loading := False\<rparr>,
               [PdfToText f, ChatCompletion (request (prompt resumeText (jobDescription st))),
                ToastSuccess (lit ''Analysis complete!'')]))"
  using run_undecodable [OF assms] run_decoded [OF assms] by blast

theorem reply_is_stored_as_decoded_witness:
  "resumeFile ready = Some cv \<and> jobDescription ready \<noteq> [] \<and>
   trim (lit ''Go developer'') \<noteq> [] \<and>
   JSON_parse (answering (Inr (lit ''Go developer'')) (Inr (lit ''{not json'')) replies) (lit ''{not json'') =
     Inl (Thrown (lit ''SyntaxError'')) \<and>
   analyzeResume (answering (Inr (lit ''Go developer'')) (Inr (lit ''{not json'')) replies) ready =
     (ready\<lparr>loading := False\<rparr>,
      [PdfToText cv, ChatCompletion (request (prompt (lit ''Go developer'') (jobDescription ready))),
       ConsoleError (lit ''Failed to analyze resume:'') (Thrown (lit ''SyntaxError'')),
       Alert (lit ''Failed to analyze resume. Please try again.'')]) \<and>
   JSON_parse (answering (Inr (lit ''Go developer'')) (Inr (lit ''{}'')) replies) (lit ''{}'') =
     Inr (JObj []) \<and>
   analyzeResume (answering (Inr (lit ''Go developer'')) (Inr (lit ''{}'')) replies) ready =
     (ready\<lparr>analysisResult := JObj [], loading := False\<rparr>,
      [PdfToText cv, ChatCompletion (request (prompt (lit ''Go developer'') (jobDescription ready))),
       ToastSuccess (lit ''Analysis complete!'')])"
proof -
  let ?bad = "answering (Inr (lit ''Go developer'')) (Inr (lit ''{not json'')) replies"
  let ?good = "answering (Inr (lit ''Go developer'')) (Inr (lit ''{}'')) replies"
  have bad: "JSON_parse ?bad (lit ''{not json'') = Inl (Thrown (lit ''SyntaxError''))"
    by (simp add: answering_simps decode_def replies_def lit_def reply_150_text_def
        reply_banana_text_def)
  have good: "JSON_parse ?good (lit ''{}'') = Inr (JObj [])"
    by (simp add: answering_simps decode_def replies_def)
  have 1: "pdfToText ?bad cv = Inr (lit ''Go developer'')"
    and 2: "create ?bad (request (prompt (lit ''Go developer'') (jobDescription ready))) =
              Inr (lit ''{not json'')"
    and 3: "pdfToText ?good cv = Inr (lit ''Go developer'')"
    and 4: "create ?good (request (prompt (lit ''Go developer'') (jobDescription ready))) =
              Inr (lit ''{}'')"
    by (simp_all add: answering_simps)
  show ?thesis
    using reply_is_stored_as_decoded [OF ready_file ready_description 1 go_developer_not_blank 2]
      reply_is_stored_as_decoded [OF ready_file ready_description 3 go_developer_not_blank 4]
      bad good ready_file ready_description go_developer_not_blank
    by blast
qed

text \<open>
  C1 as stated fails: the reply \<open>{"resume_score":150}\<close> lacks fourteen of the fifteen
  declared fields, so it is no \<open>AnalysisResult\<close> under any reading of the schema, and the
  run stores it and announces success.
\<close>

theorem partial_reply_is_stored:
  "create (answering (Inr (lit ''Go developer'')) (Inr (lit ''{\"resume_score\":150}'')) replies)
       (request (prompt (lit ''Go developer'') (jobDescription ready))) =
     Inr (lit ''{\"resume_score\":150}'') \<and>
   JSON_parse (answering (Inr (lit ''Go developer'')) (Inr (lit ''{\"resume_score\":150}'')) replies)
       (lit ''{\"resume_score\":150}'') =
     Inr (JObj [(lit ''resume_score'', JNum 150)]) \<and>
   \<not> AnalysisResult (JObj [(lit ''resume_score'', JNum 150)]) \<and>
   analyzeResume (answering (Inr (lit ''Go developer'')) (Inr (lit ''{\"resume_score\":150}'')) replies) ready =
     (ready\<lparr>analysisResult := JObj [(lit ''resume_score'', JNum 150)]\<rparr>,
      [PdfToText cv, ChatCompletion (request (prompt (lit ''Go developer'') (jobDescription ready))),
       ToastSuccess (lit ''Analysis complete!'')])"
proof -
  let ?e = "answering (Inr (lit ''Go developer'')) (Inr (lit ''{\"resume_score\":150}'')) replies"
  have d: "JSON_parse ?e (lit ''{\"resume_score\":150}'') = Inr (JObj [(lit ''resume_score'', JNum 150)])"
    by (simp add: answering_simps decode_def replies_def lit_def)
  have n: "\<not> AnalysisResult (JObj [(lit ''resume_score'', JNum 150)])"
    by (simp add: AnalysisResult_def has_def lit_def)
  have r: "analyzeResume ?e ready =
     (ready\<lparr>analysisResult := JObj [(lit ''resume_score'', JNum 150)], loading := False\<rparr>,
      [PdfToText cv, ChatCompletion (request (prompt (lit ''Go developer'') (jobDescription ready))),
       ToastSuccess (lit ''Analysis complete!'')])"
    by (rule run_decoded [OF ready_file ready_description _ go_developer_not_blank _ d])
      (simp_all add: answering_simps)
  have l: "ready\<lparr>analysisResult := v, loading := False\<rparr> = ready\<lparr>analysisResult := v\<rparr>" for v
    by (simp add: ready_def)
  show ?thesis using d n r by (simp add: l answering_simps)
qed

section \<open>Scores outside the scale\<close>

text \<open>
  C2, as the code has it. Whatever the decoded reply holds in \<open>resume_score\<close>,
  \<open>readability_score\<close> and \<open>skills_match.match_percentage\<close>, inside the scale from 0 to
  100 or outside it, the run succeeds and the stored result holds the same: nothing is
  clamped.
\<close>

theorem scores_are_stored_as_received:
  assumes "resumeFile st = Some f" and "jobDescription st \<noteq> []"
    and "pdfToText e f = Inr resumeText" and "trim resumeText \<noteq> []"
    and "create e (request (prompt resumeText (jobDescription st))) = Inr raw"
    and "JSON_parse e raw = Inr v"
  shows "resume_score (analysisResult (fst (analyzeResume e st))) = resume_score v \<and>
         readability_score (analysisResult (fst (analyzeResume e st))) = readability_score v \<and>
         match_percentage (analysisResult (fst (analyzeResume e st))) = match_percentage v \<and>
         last (snd (analyzeResume e st)) = ToastSuccess (lit ''Analysis complete!'')"
  by (simp add: run_decoded [OF assms])

theorem scores_are_stored_as_received_witness:
  "resumeFile ready = Some cv \<and> jobDescription ready \<noteq> [] \<and>
   trim (lit ''Go developer'') \<noteq> [] \<and>
   resume_score (analysisResult (fst (analyzeResume
       (answering (Inr (lit ''Go developer'')) (Inr (lit reply_150_text)) replies) ready))) =
     resume_score (reply 150 ''High'') \<and>
   match_percentage (analysisResult (fst (analyzeResume
       (answering (Inr (lit ''Go developer'')) (Inr (lit reply_150_text)) replies) ready))) =
     match_percentage (reply 150 ''High'') \<and>
   last (snd (analyzeResume
       (answering (Inr (lit ''Go developer'')) (Inr (lit reply_150_text)) replies) ready)) =
     ToastSuccess (lit ''Analysis complete!'')"
proof -
  let ?e = "answering (Inr (lit ''Go developer'')) (Inr (lit reply_150_text)) replies"
  have 1: "pdfToText ?e cv = Inr (lit ''Go developer'')"
    and 2: "create ?e (request (prompt (lit ''Go developer'') (jobDescription ready))) =
              Inr (lit reply_150_text)"
    by (simp_all add: answering_simps)
  show ?thesis
    using scores_are_stored_as_received
      [OF ready_file ready_description 1 go_developer_not_blank 2 reply_150_decoded]
      ready_file ready_description go_developer_not_blank
    by blast
qed

text \<open>
  C2 as stated fails: a reply with every field and \<open>resume_score\<close> 150 is stored with
  \<open>resume_score\<close> 150, not 100.
\<close>

theorem score_150_is_not_clamped:
  "JSON_parse (answering (Inr (lit ''Go developer'')) (Inr (lit reply_150_text)) replies)
       (lit reply_150_text) = Inr (reply 150 ''High'') \<and>
   resume_score (reply 150 ''High'') = Some (JNum 150) \<and>
   resume_score (analysisResult (fst (analyzeResume
       (answering (Inr (lit ''Go developer'')) (Inr (lit reply_150_text)) replies) ready))) =
     Some (JNum 150) \<and>
   resume_score (analysisResult (fst (analyzeResume
       (answering (Inr (lit ''Go developer'')) (Inr (lit reply_150_text)) replies) ready))) \<noteq>
     Some (JNum 100)"
proof -
  let ?e = "answering (Inr (lit ''Go developer'')) (Inr (lit reply_150_text)) replies"
  have r: "analyzeResume ?e ready =
     (ready\<lparr>analysisResult := reply 150 ''High'', loading := False\<rparr>,
      [PdfToText cv, ChatCompletion (request (prompt (lit ''Go developer'') (jobDescription ready))),
       ToastSuccess (lit ''Analysis complete!'')])"
    by (rule run_decoded [OF ready_file ready_description _ go_developer_not_blank _ reply_150_decoded])
      (simp_all add: answering_simps)
  have s: "resume_score (reply 150 ''High'') = Some (JNum 150)"
    by (simp add: resume_score_def reply_def lit_def)
  show ?thesis by (simp add: r s reply_150_decoded)
qed

section \<open>Enumerated fields\<close>

text \<open>
  C6, as the code has it. Whatever the decoded reply holds in \<open>ats_compatibility\<close>,
  \<open>resume_length\<close> and \<open>tone_of_language\<close>, the run succeeds and the stored result holds
  the same: no value is compared with the allowed ones. The one comparison without regard
  to case is \<open>getATSColor\<close>'s, when the report is drawn: a value that is none of high,
  medium, low in lower case gets the grey class, and only such a value.
\<close>

theorem enum_fields_are_stored_as_received:
  assumes "resumeFile st = Some f" and "jobDescription st \<noteq> []"
    and "pdfToText e f = Inr resumeText" and "trim resumeText \<noteq> []"
    and "create e (request (prompt resumeText (jobDescription st))) = Inr raw"
    and "JSON_parse e raw = Inr v"
  shows "ats_compatibility (analysisResult (fst (analyzeResume e st))) = ats_compatibility v \<and>
         resume_length (analysisResult (fst (analyzeResume e st))) = resume_length v \<and>
         tone_of_language (analysisResult (fst (analyzeResume e st))) = tone_of_language v \<and>
         last (snd (analyzeResume e st)) = ToastSuccess (lit ''Analysis complete!'') \<and>
         (\<forall>toLowerCase c.
            getATSColor toLowerCase c = lit ''text-gray-600'' \<longleftrightarrow>
            toLowerCase c \<notin> {lit ''high'', lit ''medium'', lit ''low''})"
  by (simp add: run_decoded [OF assms] getATSColor_def Let_def colours_distinct)

theorem enum_fields_are_stored_as_received_witness:
  "resumeFile ready = Some cv \<and> jobDescription ready \<noteq> [] \<and>
   trim (lit ''Go developer'') \<noteq> [] \<and>
   ats_compatibility (analysisResult (fst (analyzeResume
       (answering (Inr (lit ''Go developer'')) (Inr (lit reply_banana_text)) replies) ready))) =
     ats_compatibility (reply 82 ''Banana'') \<and>
   last (snd (analyzeResume
       (answering (Inr (lit ''Go developer'')) (Inr (lit reply_banana_text)) replies) ready)) =
     ToastSuccess (lit ''Analysis complete!'') \<and>
   getATSColor ascii_lower (lit ''Banana'') = lit ''text-gray-600''"
proof -
  let ?e = "answering (Inr (lit ''Go developer'')) (Inr (lit reply_banana_text)) replies"
  have 1: "pdfToText ?e cv = Inr (lit ''Go developer'')"
    and 2: "create ?e (request (prompt (lit ''Go developer'') (jobDescription ready))) =
              Inr (lit reply_banana_text)"
    by (simp_all add: answering_simps)
  have n: "ascii_lower (lit ''Banana'') \<notin> {lit ''high'', lit ''medium'', lit ''low''}"
    by (simp add: ascii_lower_def lit_def)
  show ?thesis
    using enum_fields_are_stored_as_received
      [OF ready_file ready_description 1 go_developer_not_blank 2 reply_banana_decoded]
      ready_file ready_description go_developer_not_blank n
    by blast
qed

text \<open>
  C6 as stated fails: a reply with every field whose \<open>ats_compatibility\<close> is \<open>Banana\<close>,
  which is none of High, Medium, Low in any case, is stored and success is announced.
\<close>

theorem banana_is_accepted:
  "JSON_parse (answering (Inr (lit ''Go developer'')) (Inr (lit reply_banana_text)) replies)
       (lit reply_banana_text) = Inr (reply 82 ''Banana'') \<and>
   ats_compatibility (reply 82 ''Banana'') = Some (JStr (lit ''Banana'')) \<and>
   ascii_lower (lit ''Banana'') \<notin> ascii_lower ` {lit ''High'', lit ''Medium'', lit ''Low''} \<and>
   analyzeResume (answering (Inr (lit ''Go developer'')) (Inr (lit reply_banana_text)) replies) ready =
     (ready\<lparr>analysisResult := reply 82 ''Banana''\<rparr>,
      [PdfToText cv, ChatCompletion (request (prompt (lit ''Go developer'') (jobDescription ready))),
       ToastSuccess (lit ''Analysis complete!'')])"
proof -
  let ?e = "answering (Inr (lit ''Go developer'')) (Inr (lit reply_banana_text)) replies"
  have r: "analyzeResume ?e ready =
     (ready\<lparr>analysisResult := reply 82 ''Banana'', loading := False\<rparr>,
      [PdfToText cv, ChatCompletion (request (prompt (lit ''Go developer'') (jobDescription ready))),
       ToastSuccess (lit ''Analysis complete!'')])"
    by (rule run_decoded [OF ready_file ready_description _ go_developer_not_blank _ reply_banana_decoded])
      (simp_all add: answering_simps)
  have l: "ready\<lparr>analysisResult := v, loading := False\<rparr> = ready\<lparr>analysisResult := v\<rparr>" for v
    by (simp add: ready_def)
  have a: "ats_compatibility (reply 82 ''Banana'') = Some (JStr (lit ''Banana''))"
    by (simp add: ats_compatibility_def reply_def lit_def)
  have n: "ascii_lower (lit ''Banana'') \<notin> ascii_lower ` {lit ''High'', lit ''Medium'', lit ''Low''}"
    by (simp add: ascii_lower_def lit_def)
  show ?thesis using r a n by (simp add: l reply_banana_decoded)
qed

section \<open>One run at a time\<close>

text \<open>
  C3, as the code has it. On the page, whatever happened since it was opened, at most one
  run is in flight; and while one is, a click on the Analyze button is not delivered: the
  page stays as it is (no stage starts, nothing is reported), so everything that happens
  later happens as if there had been no click.
\<close>

theorem click_while_running_is_ignored:
  "length (inflight (foldl (step parse) opened evs)) \<le> 1 \<and>
   (inflight (foldl (step parse) opened evs) \<noteq> [] \<longrightarrow>
      step parse (foldl (step parse) opened evs) Click = foldl (step parse) opened evs \<and>
      foldl (step parse) opened (evs @ Click # later) = foldl (step parse) opened (evs @ later))"
  using page_keeps_one_run [of parse evs] by (simp add: disabled_def)

theorem click_while_running_is_ignored_witness:
  "inflight (foldl (step (decode replies)) opened [Upload (Some cv), Edit (lit ''Go, AWS''), Click]) =
     [AwaitExtract cv (lit ''Go, AWS'')] \<and>
   step (decode replies)
       (foldl (step (decode replies)) opened [Upload (Some cv), Edit (lit ''Go, AWS''), Click]) Click =
     foldl (step (decode replies)) opened [Upload (Some cv), Edit (lit ''Go, AWS''), Click] \<and>
   foldl (step (decode replies)) opened
       ([Upload (Some cv), Edit (lit ''Go, AWS''), Click] @
        Click # [Settled 0 (Inr (lit ''Go developer'')), Settled 0 (Inr (lit ''{}''))]) =
     foldl (step (decode replies)) opened
       ([Upload (Some cv), Edit (lit ''Go, AWS''), Click] @
        [Settled 0 (Inr (lit ''Go developer'')), Settled 0 (Inr (lit ''{}''))])"
proof -
  have i: "inflight (foldl (step (decode replies)) opened [Upload (Some cv), Edit (lit ''Go, AWS''), Click]) =
     [AwaitExtract cv (lit ''Go, AWS'')]"
    by (simp add: opened_def initial_def handleResumeUpload_def disabled_def
        analyzeResume_start_def lit_def)
  then have n: "inflight (foldl (step (decode replies)) opened [Upload (Some cv), Edit (lit ''Go, AWS''), Click]) \<noteq> []"
    by simp
  show ?thesis
    using click_while_running_is_ignored [of "decode replies" "[Upload (Some cv), Edit (lit ''Go, AWS''), Click]"
        "[Settled 0 (Inr (lit ''Go developer'')), Settled 0 (Inr (lit ''{}''))]"] i n
    by blast
qed

text \<open>
  C3 as stated fails: \<open>analyzeResume\<close> does not look at \<open>loading\<close>. Called while
  \<open>loading\<close> is set, it starts the extraction, sends a request and replaces the stored
  result.
\<close>

theorem second_call_is_not_rejected:
  "loading (ready\<lparr>loading := True\<rparr>) \<and>
   analyzeResume_start (ready\<lparr>loading := True\<rparr>) =
     (ready\<lparr>loading := True\<rparr>, [PdfToText cv], Some (cv, lit ''Go, AWS'')) \<and>
   analyzeResume (answering (Inr (lit ''Go developer'')) (Inr (lit ''{}'')) replies)
       (ready\<lparr>loading := True\<rparr>) =
     (ready\<lparr>analysisResult := JObj []\<rparr>,
      [PdfToText cv, ChatCompletion (request (prompt (lit ''Go developer'') (lit ''Go, AWS''))),
       ToastSuccess (lit ''Analysis complete!'')])"
proof -
  let ?e = "answering (Inr (lit ''Go developer'')) (Inr (lit ''{}'')) replies"
  let ?st = "ready\<lparr>loading := True\<rparr>"
  have d: "JSON_parse ?e (lit ''{}'') = Inr (JObj [])"
    by (simp add: answering_simps decode_def replies_def)
  have f: "resumeFile ?st = Some cv" and j: "jobDescription ?st \<noteq> []"
    by (simp_all add: ready_def lit_def)
  have r: "analyzeResume ?e ?st =
     (?st\<lparr>analysisResult := JObj [], loading := False\<rparr>,
      [PdfToText cv, ChatCompletion (request (prompt (lit ''Go developer'') (jobDescription ?st))),
       ToastSuccess (lit ''Analysis complete!'')])"
    by (rule run_decoded [OF f j _ go_developer_not_blank _ d]) (simp_all add: answering_simps)
  have s: "analyzeResume_start ?st = (?st, [PdfToText cv], Some (cv, lit ''Go, AWS''))"
    by (simp add: analyzeResume_start_def ready_def lit_def)
  show ?thesis using r s by (simp add: ready_def)
qed

section \<open>Empty and blank documents\<close>

text \<open>
  C4. When the extraction yields the empty string (the PDF library answered it, or threw),
  the run shows ``Failed to Scan Resume'' and ends with \<open>loading\<close> reset: the second
  segment builds no request and nothing is sent to the completion service.
\<close>

theorem empty_extraction_stops_run:
  assumes "resumeFile st = Some f" and "jobDescription st \<noteq> []"
    and "extractTextFromPDF (pdfToText e f) = ([], fx)"
  shows "analyzeResume e st =
           (st\<lparr>loading := False\<rparr>, [PdfToText f] @ fx @ [ToastError (lit ''Failed to Scan Resume'')]) \<and>
         requests (snd (analyzeResume e st)) = [] \<and>
         snd (snd (analyzeResume_extracted (jobDescription st) [] (st\<lparr>loading := True\<rparr>))) = None"
proof -
  have r: "requests fx = []" using extract_quiet [of "pdfToText e f"] assms(3) by simp
  have run: "analyzeResume e st =
           (st\<lparr>loading := False\<rparr>, [PdfToText f] @ fx @ [ToastError (lit ''Failed to Scan Resume'')])"
    using assms trim_Nil by (simp add: analyzeResume_def analyzeResume_start_def analyzeResume_extracted_def)
  show ?thesis using run r by (simp add: requests_append trim_Nil analyzeResume_extracted_def)
qed

theorem empty_extraction_stops_run_witness:
  "resumeFile ready = Some cv \<and> jobDescription ready \<noteq> [] \<and>
   extractTextFromPDF (pdfToText (answering (Inr []) (Inr (lit ''{}'')) replies) cv) = ([], []) \<and>
   analyzeResume (answering (Inr []) (Inr (lit ''{}'')) replies) ready =
     (ready\<lparr>loading := False\<rparr>, [PdfToText cv, ToastError (lit ''Failed to Scan Resume'')]) \<and>
   requests (snd (analyzeResume (answering (Inr []) (Inr (lit ''{}'')) replies) ready)) = []"
proof -
  have a: "resumeFile ready = Some cv" by (simp add: ready_def)
  have b: "jobDescription ready \<noteq> []" by (simp add: ready_def lit_def)
  have c: "extractTextFromPDF (pdfToText (answering (Inr []) (Inr (lit ''{}'')) replies) cv) = ([], [])"
    by (simp add: answering_def extractTextFromPDF_def)
  show ?thesis using empty_extraction_stops_run [OF a b c] a b c by simp
qed

text \<open>
  C10. An extracted text made of white space only is handled as the empty text is: the
  test trims it first, so the run shows ``Failed to Scan Resume'', resets \<open>loading\<close> and
  sends nothing to the completion service.
\<close>

theorem blank_extraction_is_empty_extraction:
  assumes "resumeFile st = Some f" and "jobDescription st \<noteq> []"
    and "pdfToText e f = Inr resumeText" and "\<forall>c\<in>set resumeText. is_space c"
  shows "analyzeResume e st = analyzeResume (e\<lparr>pdfToText := \<lambda>f. Inr []\<rparr>) st \<and>
         analyzeResume e st =
           (st\<lparr>loading := False\<rparr>, [PdfToText f, ToastError (lit ''Failed to Scan Resume'')]) \<and>
         requests (snd (analyzeResume e st)) = []"
proof -
  have t: "trim resumeText = []" using assms(4) by (simp add: trim_empty_iff)
  have run: "analyzeResume e st =
           (st\<lparr>loading := False\<rparr>, [PdfToText f, ToastError (lit ''Failed to Scan Resume'')])"
    using assms(1-3) t
    by (simp add: analyzeResume_def analyzeResume_start_def analyzeResume_extracted_def
        extractTextFromPDF_def)
  have run0: "analyzeResume (e\<lparr>pdfToText := \<lambda>f. Inr []\<rparr>) st =
           (st\<lparr>loading := False\<rparr>, [PdfToText f, ToastError (lit ''Failed to Scan Resume'')])"
    using assms(1-2) trim_Nil
    by (simp add: analyzeResume_def analyzeResume_start_def analyzeResume_extracted_def
        extractTextFromPDF_def)
  show ?thesis by (simp add: run run0)
qed

theorem blank_extraction_is_empty_extraction_witness:
  "resumeFile ready = Some cv \<and> jobDescription ready \<noteq> [] \<and>
   pdfToText (answering (Inr [0x20, 0xA, 0x3000]) (Inr (lit ''{}'')) replies) cv =
     Inr [0x20, 0xA, 0x3000] \<and>
   is_space 0x20 \<and> is_space 0xA \<and> is_space 0x3000 \<and>
   analyzeResume (answering (Inr [0x20, 0xA, 0x3000]) (Inr (lit ''{}'')) replies) ready =
     (ready\<lparr>loading := False\<rparr>, [PdfToText cv, ToastError (lit ''Failed to Scan Resume'')]) \<and>
   requests (snd (analyzeResume (answering (Inr [0x20, 0xA, 0x3000]) (Inr (lit ''{}'')) replies) ready)) = []"
proof -
  have a: "resumeFile ready = Some cv" by (simp add: ready_def)
  have b: "jobDescription ready \<noteq> []" by (simp add: ready_def lit_def)
  have c: "pdfToText (answering (Inr [0x20, 0xA, 0x3000]) (Inr (lit ''{}'')) replies) cv =
     Inr [0x20, 0xA, 0x3000]"
    by (simp add: answering_def)
  have d: "\<forall>c\<in>set [0x20, 0xA, 0x3000]. is_space c" by (simp add: is_space_def)
  have s: "is_space 0x20 \<and> is_space 0xA \<and> is_space 0x3000" by (simp add: is_space_def)
  show ?thesis using blank_extraction_is_empty_extraction [OF a b c d] a b c s by blast
qed

section \<open>The prompt\<close>

text \<open>
  C7. The request a run sends is fixed by the extracted text and the job description
  alone: two runs that agree on both send the same request, whatever else differs (the
  file, the stored result, the answers of the service). Its content is the fixed head, the
  whole text, the fixed middle, the whole job description and the fixed tail: both inputs
  can be read back from it in full, and it is 1432 code units longer than the two together.
\<close>

theorem prompt_is_fixed_by_text_and_description:
  assumes "resumeFile st = Some f" and "resumeFile st' = Some f'"
    and "jobDescription st = jd" and "jobDescription st' = jd" and "jd \<noteq> []"
    and "pdfToText e f = Inr resumeText" and "pdfToText e' f' = Inr resumeText"
    and "trim resumeText \<noteq> []"
  shows "requests (snd (analyzeResume e st)) = [request (prompt resumeText jd)] \<and>
         requests (snd (analyzeResume e' st')) = requests (snd (analyzeResume e st)) \<and>
         content (request (prompt resumeText jd)) =
           prompt_head @ resumeText @ prompt_mid @ jd @ prompt_tail \<and>
         take (length resumeText) (drop (length prompt_head) (prompt resumeText jd)) = resumeText \<and>
         take (length jd)
           (drop (length prompt_head + length resumeText + length prompt_mid) (prompt resumeText jd)) = jd \<and>
         length (prompt resumeText jd) = 1432 + length resumeText + length jd"
proof -
  have a: "requests (snd (analyzeResume e st)) = [request (prompt resumeText jd)]"
    using run_requests [of st f e resumeText] assms by simp
  have b: "requests (snd (analyzeResume e' st')) = [request (prompt resumeText jd)]"
    using run_requests [of st' f' e' resumeText] assms by simp
  have l: "length (prompt resumeText jd) = 1432 + length resumeText + length jd"
    using prompt_frame_length by (simp add: prompt_def)
  show ?thesis using a b l by (simp add: prompt_def request_def)
qed

theorem prompt_is_fixed_by_text_and_description_witness:
  "resumeFile ready = Some cv \<and>
   resumeFile (ready\<lparr>analysisResult := reply 82 ''Banana'', loading := True\<rparr>) = Some cv \<and>
   jobDescription ready = lit ''Go, AWS'' \<and> lit ''Go, AWS'' \<noteq> [] \<and>
   trim (lit ''Go developer'') \<noteq> [] \<and>
   requests (snd (analyzeResume
       (answering (Inr (lit ''Go developer'')) (Inr (lit ''{}'')) replies) ready)) =
     [request (prompt (lit ''Go developer'') (lit ''Go, AWS''))] \<and>
   requests (snd (analyzeResume
       (answering (Inr (lit ''Go developer'')) (Inl (Thrown (lit ''429''))) replies)
       (ready\<lparr>analysisResult := reply 82 ''Banana'', loading := True\<rparr>))) =
     requests (snd (analyzeResume
       (answering (Inr (lit ''Go developer'')) (Inr (lit ''{}'')) replies) ready)) \<and>
   length (prompt (lit ''Go developer'') (lit ''Go, AWS'')) = 1451"
proof -
  let ?e = "answering (Inr (lit ''Go developer'')) (Inr (lit ''{}'')) replies"
  let ?e' = "answering (Inr (lit ''Go developer'')) (Inl (Thrown (lit ''429''))) replies"
  let ?st' = "ready\<lparr>analysisResult := reply 82 ''Banana'', loading := True\<rparr>"
  have f': "resumeFile ?st' = Some cv" and j': "jobDescription ?st' = lit ''Go, AWS''"
    by (simp_all add: ready_def)
  have n: "lit ''Go, AWS'' \<noteq> []" by (simp add: lit_def)
  have 1: "pdfToText ?e cv = Inr (lit ''Go developer'')"
    and 2: "pdfToText ?e' cv = Inr (lit ''Go developer'')"
    by (simp_all add: answering_simps)
  have len: "1432 + length (lit ''Go developer'') + length (lit ''Go, AWS'') = 1451"
    by (simp add: lit_def)
  show ?thesis
    using prompt_is_fixed_by_text_and_description
      [OF ready_file f' go_aws j' n 1 2 go_developer_not_blank]
      ready_file f' go_aws n go_developer_not_blank len
    by simp
qed

section \<open>What a run leaves behind\<close>

text \<open>
  C8. A run that fails leaves the stored result as it was: with an input missing, with a
  blank extraction, with the request rejected, with a reply that does not decode. A run
  that changed the stored result ended with the success notice.
\<close>

theorem failed_run_keeps_result:
  "(resumeFile st = None \<or> jobDescription st = [] \<longrightarrow>
      analysisResult (fst (analyzeResume e st)) = analysisResult st) \<and>
   (\<forall>f. resumeFile st = Some f \<and> trim (fst (extractTextFromPDF (pdfToText e f))) = [] \<longrightarrow>
      analysisResult (fst (analyzeResume e st)) = analysisResult st) \<and>
   (\<forall>f resumeText error.
      resumeFile st = Some f \<and> pdfToText e f = Inr resumeText \<and>
      create e (request (prompt resumeText (jobDescription st))) = Inl error \<longrightarrow>
      analysisResult (fst (analyzeResume e st)) = analysisResult st) \<and>
   (\<forall>f resumeText raw error.
      resumeFile st = Some f \<and> pdfToText e f = Inr resumeText \<and>
      create e (request (prompt resumeText (jobDescription st))) = Inr raw \<and>
      JSON_parse e raw = Inl error \<longrightarrow>
      analysisResult (fst (analyzeResume e st)) = analysisResult st) \<and>
   (analysisResult (fst (analyzeResume e st)) \<noteq> analysisResult st \<longrightarrow>
      last (snd (analyzeResume e st)) = ToastSuccess (lit ''Analysis complete!''))"
proof (intro conjI allI impI)
  assume "resumeFile st = None \<or> jobDescription st = []"
  then show "analysisResult (fst (analyzeResume e st)) = analysisResult st"
    by (simp add: run_missing)
next
  fix f
  assume a: "resumeFile st = Some f \<and> trim (fst (extractTextFromPDF (pdfToText e f))) = []"
  show "analysisResult (fst (analyzeResume e st)) = analysisResult st"
  proof (cases "jobDescription st = []")
    case True
    then show ?thesis by (simp add: run_missing)
  next
    case False
    obtain resumeText fx where x: "extractTextFromPDF (pdfToText e f) = (resumeText, fx)"
      by (cases "extractTextFromPDF (pdfToText e f)")
    with a have "trim resumeText = []" by simp
    with a False x show ?thesis by (simp add: run_blank [of st f e resumeText fx])
  qed
next
  fix f resumeText error
  assume a: "resumeFile st = Some f \<and> pdfToText e f = Inr resumeText \<and>
      create e (request (prompt resumeText (jobDescription st))) = Inl error"
  then show "analysisResult (fst (analyzeResume e st)) = analysisResult st"
    by (auto simp: analyzeResume_def analyzeResume_start_def analyzeResume_extracted_def
        analyzeResume_completed_def failed_def extractTextFromPDF_def)
next
  fix f resumeText raw error
  assume a: "resumeFile st = Some f \<and> pdfToText e f = Inr resumeText \<and>
      create e (request (prompt resumeText (jobDescription st))) = Inr raw \<and>
      JSON_parse e raw = Inl error"
  then show "analysisResult (fst (analyzeResume e st)) = analysisResult st"
    by (auto simp: analyzeResume_def analyzeResume_start_def analyzeResume_extracted_def
        analyzeResume_completed_def failed_def extractTextFromPDF_def)
next
  assume "analysisResult (fst (analyzeResume e st)) \<noteq> analysisResult st"
  then show "last (snd (analyzeResume e st)) = ToastSuccess (lit ''Analysis complete!'')"
    using run_result [of e st] by simp
qed

theorem failed_run_keeps_result_witness:
  "analysisResult (fst (analyzeResume
       (answering (Inr (lit ''Go developer'')) (Inr (lit ''{}'')) replies)
       (ready\<lparr>jobDescription := [], analysisResult := reply 82 ''Banana''\<rparr>))) =
     reply 82 ''Banana'' \<and>
   analysisResult (fst (analyzeResume
       (answering (Inr []) (Inr (lit ''{}'')) replies)
       (ready\<lparr>analysisResult := reply 82 ''Banana''\<rparr>))) =
     reply 82 ''Banana'' \<and>
   analysisResult (fst (analyzeResume
       (answering (Inr (lit ''Go developer'')) (Inl (Thrown (lit ''429''))) replies)
       (ready\<lparr>analysisResult := reply 82 ''Banana''\<rparr>))) =
     reply 82 ''Banana'' \<and>
   analysisResult (fst (analyzeResume
       (answering (Inr (lit ''Go developer'')) (Inr (lit ''{not json'')) replies)
       (ready\<lparr>analysisResult := reply 82 ''Banana''\<rparr>))) =
     reply 82 ''Banana''"
proof -
  let ?st = "ready\<lparr>analysisResult := reply 82 ''Banana''\<rparr>"
  let ?blank = "answering (Inr []) (Inr (lit ''{}'')) replies"
  let ?rejected = "answering (Inr (lit ''Go developer'')) (Inl (Thrown (lit ''429''))) replies"
  let ?bad = "answering (Inr (lit ''Go developer'')) (Inr (lit ''{not json'')) replies"
  have f: "resumeFile ?st = Some cv" by (simp add: ready_def)
  have a: "resumeFile (ready\<lparr>jobDescription := [], analysisResult := reply 82 ''Banana''\<rparr>) = None \<or>
           jobDescription (ready\<lparr>jobDescription := [], analysisResult := reply 82 ''Banana''\<rparr>) = []"
    by simp
  have b: "resumeFile ?st = Some cv \<and> trim (fst (extractTextFromPDF (pdfToText ?blank cv))) = []"
    by (simp add: f answering_simps extractTextFromPDF_def trim_Nil)
  have c: "resumeFile ?st = Some cv \<and> pdfToText ?rejected cv = Inr (lit ''Go developer'') \<and>
           create ?rejected (request (prompt (lit ''Go developer'') (jobDescription ?st))) =
             Inl (Thrown (lit ''429''))"
    by (simp add: f answering_simps)
  have d: "resumeFile ?st = Some cv \<and> pdfToText ?bad cv = Inr (lit ''Go developer'') \<and>
           create ?bad (request (prompt (lit ''Go developer'') (jobDescription ?st))) =
             Inr (lit ''{not json'') \<and>
           JSON_parse ?bad (lit ''{not json'') = Inl (Thrown (lit ''SyntaxError''))"
    by (simp add: f answering_simps decode_def replies_def lit_def reply_150_text_def
        reply_banana_text_def)
  have 1: "analysisResult (fst (analyzeResume
       (answering (Inr (lit ''Go developer'')) (Inr (lit ''{}'')) replies)
       (ready\<lparr>jobDescription := [], analysisResult := reply 82 ''Banana''\<rparr>))) =
     analysisResult (ready\<lparr>jobDescription := [], analysisResult := reply 82 ''Banana''\<rparr>)"
    using failed_run_keeps_result
        [of "ready\<lparr>jobDescription := [], analysisResult := reply 82 ''Banana''\<rparr>"
          "answering (Inr (lit ''Go developer'')) (Inr (lit ''{}'')) replies"] a
    by blast
  have 2: "analysisResult (fst (analyzeResume ?blank ?st)) = analysisResult ?st"
    using failed_run_keeps_result [of ?st ?blank] b by blast
  have 3: "analysisResult (fst (analyzeResume ?rejected ?st)) = analysisResult ?st"
    using failed_run_keeps_result [of ?st ?rejected] c by blast
  have 4: "analysisResult (fst (analyzeResume ?bad ?st)) = analysisResult ?st"
    using failed_run_keeps_result [of ?st ?bad] d by blast
  show ?thesis using 1 2 3 4 by simp
qed

section \<open>The loading flag\<close>




section \<open>Missing input\<close>

text \<open>
  C5. A run with no document or with an empty job description alerts the user and
  returns at once, before anything is awaited: the state is as it was, the PDF library is
  not called and no request is sent.
\<close>

theorem missing_input_returns_at_once:
  "resumeFile st = None \<or> jobDescription st = [] \<Longrightarrow>
   analyzeResume e st =
     (st, [Alert (lit ''Please upload a resume and provide a job description'')]) \<and>
   extractions (snd (analyzeResume e st)) = [] \<and>
   requests (snd (analyzeResume e st)) = [] \<and>
   snd (snd (analyzeResume_start st)) = None"
  by (auto simp: analyzeResume_def analyzeResume_start_def split: option.splits)

theorem missing_input_returns_at_once_witness:
  "(resumeFile initial = None \<or> jobDescription initial = []) \<and>
   analyzeResume (answering (Inr (lit ''Go developer'')) (Inr (lit ''{}'')) replies) initial =
     (initial, [Alert (lit ''Please upload a resume and provide a job description'')]) \<and>
   (resumeFile (ready\<lparr>jobDescription := []\<rparr>) = None \<or>
    jobDescription (ready\<lparr>jobDescription := []\<rparr>) = []) \<and>
   analyzeResume (answering (Inr (lit ''Go developer'')) (Inr (lit ''{}'')) replies)
       (ready\<lparr>jobDescription := []\<rparr>) =
     (ready\<lparr>jobDescription := []\<rparr>,
      [Alert (lit ''Please upload a resume and provide a job description'')]) \<and>
   requests (snd (analyzeResume (answering (Inr (lit ''Go developer'')) (Inr (lit ''{}'')) replies)
       (ready\<lparr>jobDescription := []\<rparr>))) = []"
proof -
  have a: "resumeFile initial = None \<or> jobDescription initial = []"
    by (simp add: initial_def)
  have b: "resumeFile (ready\<lparr>jobDescription := []\<rparr>) = None \<or>
           jobDescription (ready\<lparr>jobDescription := []\<rparr>) = []"
    by simp
  show ?thesis
    using missing_input_returns_at_once [OF a] missing_input_returns_at_once [OF b] a b
    by blast
qed

end
